theory Spec2Isabelle
  imports Complex_Main
begin

text \<open>
  A model of the repair session of Omni-Fix AR: the state of the component \<open>App\<close>
  (App.tsx), its event handlers with their asynchronous continuations, and the runs in
  which the user's actions, the timers and the answers of the reasoning service
  interleave. The service, the camera and the recorder are the environment: what they
  deliver is a parameter of the event that delivers it.
\<close>

section \<open>Data model (types.ts)\<close>

datatype AppState =
    INTRO | CAMERA_READY | ANALYZING | REPAIR_GUIDE | VERIFYING | INSPECTING | COMPLETED | ERROR

record Coordinates =
  ymin :: real
  xmin :: real
  ymax :: real
  xmax :: real

datatype CueType = Box | Arrow | Point | NoCue

record VisualCue =
  cue_type :: CueType
  coordinates :: Coordinates
  label :: "string option"
  direction :: "string option"

record RepairStep =
  step_id :: int
  title :: string
  instruction :: string
  visualCue :: VisualCue
  toolNeeded :: "string option"
  safetyWarning :: "string option"

record RepairPlan =
  objectName :: string
  issueDiagnosis :: string
  steps :: "RepairStep list"

datatype Status = Good | Damaged | Unknown

record ComponentInfo =
  name :: string
  function' :: string
  status :: Status
  details :: string

text \<open>The object \<open>{completed, feedback}\<close> that \<open>verifyRepairStep\<close> resolves to.\<close>

record VerifyResult =
  completed :: bool
  feedback :: string

section \<open>JavaScript numbers\<close>

text \<open>
  A JavaScript number is modelled as an exact real or one of the three special values
  that a division by zero can produce. The arithmetic of IEEE doubles is not modelled:
  a quotient and a product of finite values are the exact real ones, where the code
  rounds each to the nearest double (for \<open>(7 / 200) * 100\<close> it stores
  3.5000000000000004, the model 3.5) and overflows to Infinity beyond the largest
  double. The sign of zero is left out, and a zero divisor is taken as \<open>+0\<close> (the
  width and height of a bounding box are never negative). So a coordinate of the model
  is the code's coordinate up to rounding, not to its last digit.
\<close>

datatype jsnum = Fin real | PosInf | NegInf | NaN

definition js_div :: "real \<Rightarrow> real \<Rightarrow> jsnum" where
  "js_div a b =
     (if b \<noteq> 0 then Fin (a / b)
      else if 0 < a then PosInf
      else if a < 0 then NegInf
      else NaN)"

definition js_mul :: "jsnum \<Rightarrow> real \<Rightarrow> jsnum" where
  "js_mul a b =
     (case a of
        Fin v \<Rightarrow> Fin (v * b)
      | PosInf \<Rightarrow> (if 0 < b then PosInf else if b < 0 then NegInf else NaN)
      | NegInf \<Rightarrow> (if 0 < b then NegInf else if b < 0 then PosInf else NaN)
      | NaN \<Rightarrow> NaN)"

section \<open>Component state (App.tsx, the useState cells)\<close>

record InspectorPoint =
  pt_x :: jsnum
  pt_y :: jsnum

record session =
  appState :: AppState
  repairPlan :: "RepairPlan option"
  currentStepIndex :: int
  errorMsg :: "string option"
  cameraActive :: bool
  capturedImage :: "string option"
  isListening :: bool
  assistantResponse :: "string option"
  inspectorPoint :: "InspectorPoint option"
  componentInfo :: "ComponentInfo option"

text \<open>The state of the first render: the initial values given to \<open>useState\<close>.\<close>

definition initialSession :: session where
  "initialSession =
     \<lparr>appState = INTRO, repairPlan = None, currentStepIndex = 0, errorMsg = None,
      cameraActive = False, capturedImage = None, isListening = False,
      assistantResponse = None, inspectorPoint = None, componentInfo = None\<rparr>"

section \<open>The page: useRef cells and the browser objects behind them\<close>

record MediaStream =
  audioTracks :: "nat list"

record HTMLVideoElement =
  srcObject :: "MediaStream option"
  frameDataUrl :: string

record HTMLCanvasElement =
  context2d :: bool

record DOMRect =
  rect_left :: real
  rect_top :: real
  rect_width :: real
  rect_height :: real

record MediaRecorder =
  rec_track :: nat
  recording :: bool

text \<open>
  \<open>frameDataUrl\<close> is what \<open>canvas.toDataURL('image/jpeg', 0.8)\<close> returns once the
  current video frame has been drawn on the canvas; \<open>containerRef\<close> holds the box that
  \<open>getBoundingClientRect\<close> reports for the mounted container; \<open>speechSynthesis\<close> says
  whether \<open>'speechSynthesis' in window\<close>.
\<close>

record refs =
  videoRef :: "HTMLVideoElement option"
  canvasRef :: "HTMLCanvasElement option"
  containerRef :: "DOMRect option"
  mediaRecorderRef :: "MediaRecorder option"
  audioChunksRef :: "string list"
  speechSynthesis :: bool

subsection \<open>String helpers\<close>

text \<open>\<open>s.split(c)\<close> for a one-character separator.\<close>

fun split_on :: "char \<Rightarrow> string \<Rightarrow> string list" where
  "split_on c [] = [[]]"
| "split_on c (x # xs) =
     (if x = c then [] # split_on c xs
      else (case split_on c xs of
              [] \<Rightarrow> [[x]]
            | w # ws \<Rightarrow> (x # w) # ws))"

text \<open>\<open>xs[i]\<close>: \<open>undefined\<close> (here \<open>None\<close>) outside the array.\<close>

definition js_index :: "'a list \<Rightarrow> int \<Rightarrow> 'a option" where
  "js_index xs i = (if 0 \<le> i \<and> i < int (length xs) then Some (xs ! nat i) else None)"

text \<open>The template \<open>`data:image/jpeg;base64,${base64}`\<close>.\<close>

definition dataUrl :: "string \<Rightarrow> string" where
  "dataUrl base64 = ''data:image/jpeg;base64,'' @ base64"

subsection \<open>captureFrame\<close>

text \<open>
  Resizing the canvas and drawing the frame leave no trace in the model: the picture
  they produce is \<open>frameDataUrl\<close>.
\<close>

definition captureFrame :: "refs \<Rightarrow> string option" where
  "captureFrame d =
     (case videoRef d of
        None \<Rightarrow> None
      | Some video \<Rightarrow>
          (case canvasRef d of
             None \<Rightarrow> None
           | Some canvas \<Rightarrow>
               if \<not> context2d canvas then None
               else js_index (split_on CHR '','' (frameDataUrl video)) 1))"


section \<open>Effects: outstanding asynchronous work and speech\<close>

text \<open>
  A handler of the component is a closure of one render: where it reads the state
  variables \<open>repairPlan\<close> and \<open>currentStepIndex\<close> it reads the values of that render, also
  after an \<open>await\<close> or inside a timer callback. Such handlers take the render's state as
  a first argument \<open>r\<close>; the setters always act on the current state, and a functional
  update \<open>prev => prev + 1\<close> reads the current value.
\<close>

datatype task =
    GetUserMedia
  | AnalyzeImageAndCreatePlan string
  | VerifyTimeout session
  | VerifyRepairStep session string string
  | IdentifyComponentAtPoint string jsnum jsnum string
  | RecorderStop session
  | AskRepairAssistant string "string option" string

record world =
  ui :: session
  page :: refs
  spoken :: "string list"
  tasks :: "task list"

definition setAppState :: "AppState \<Rightarrow> world \<Rightarrow> world" where
  "setAppState v w = w\<lparr>ui := (ui w)\<lparr>appState := v\<rparr>\<rparr>"

definition setRepairPlan :: "RepairPlan option \<Rightarrow> world \<Rightarrow> world" where
  "setRepairPlan v w = w\<lparr>ui := (ui w)\<lparr>repairPlan := v\<rparr>\<rparr>"

definition setCurrentStepIndex :: "(int \<Rightarrow> int) \<Rightarrow> world \<Rightarrow> world" where
  "setCurrentStepIndex f w = w\<lparr>ui := (ui w)\<lparr>currentStepIndex := f (currentStepIndex (ui w))\<rparr>\<rparr>"

definition setErrorMsg :: "string option \<Rightarrow> world \<Rightarrow> world" where
  "setErrorMsg v w = w\<lparr>ui := (ui w)\<lparr>errorMsg := v\<rparr>\<rparr>"

definition setCameraActive :: "bool \<Rightarrow> world \<Rightarrow> world" where
  "setCameraActive v w = w\<lparr>ui := (ui w)\<lparr>cameraActive := v\<rparr>\<rparr>"

definition setCapturedImage :: "string option \<Rightarrow> world \<Rightarrow> world" where
  "setCapturedImage v w = w\<lparr>ui := (ui w)\<lparr>capturedImage := v\<rparr>\<rparr>"

definition setIsListening :: "bool \<Rightarrow> world \<Rightarrow> world" where
  "setIsListening v w = w\<lparr>ui := (ui w)\<lparr>isListening := v\<rparr>\<rparr>"

definition setAssistantResponse :: "string option \<Rightarrow> world \<Rightarrow> world" where
  "setAssistantResponse v w = w\<lparr>ui := (ui w)\<lparr>assistantResponse := v\<rparr>\<rparr>"

definition setInspectorPoint :: "InspectorPoint option \<Rightarrow> world \<Rightarrow> world" where
  "setInspectorPoint v w = w\<lparr>ui := (ui w)\<lparr>inspectorPoint := v\<rparr>\<rparr>"

definition setComponentInfo :: "ComponentInfo option \<Rightarrow> world \<Rightarrow> world" where
  "setComponentInfo v w = w\<lparr>ui := (ui w)\<lparr>componentInfo := v\<rparr>\<rparr>"

text \<open>The handler goes on after the named call or timer has completed.\<close>

definition await :: "task \<Rightarrow> world \<Rightarrow> world" where
  "await t w = w\<lparr>tasks := tasks w @ [t]\<rparr>"

text \<open>
  \<open>speak\<close> cancels the utterance in progress and starts a new one, when the browser
  has speech synthesis; \<open>spoken\<close> lists the utterances started, oldest first.
\<close>

definition speak :: "string \<Rightarrow> world \<Rightarrow> world" where
  "speak text w = (if speechSynthesis (page w) then w\<lparr>spoken := spoken w @ [text]\<rparr> else w)"

datatype 'a promise = Fulfilled 'a | Rejected

section \<open>The handlers of App.tsx\<close>

subsection \<open>startCamera\<close>

definition startCamera :: "world \<Rightarrow> world" where
  "startCamera w =
     (let w1 = setAppState CAMERA_READY w;
          w2 = setCameraActive True w1
      in await GetUserMedia w2)"

definition startCamera_resolved :: "MediaStream promise \<Rightarrow> world \<Rightarrow> world" where
  "startCamera_resolved res w =
     (case res of
        Fulfilled stream \<Rightarrow>
          (case videoRef (page w) of
             None \<Rightarrow> w
           | Some video \<Rightarrow>
               w\<lparr>page := (page w)\<lparr>videoRef := Some (video\<lparr>srcObject := Some stream\<rparr>)\<rparr>\<rparr>)
      | Rejected \<Rightarrow>
          (let w1 = setErrorMsg (Some ''Camera/Mic access denied. Please enable permissions.'') w
           in setAppState ERROR w1))"

subsection \<open>handleScan\<close>

definition handleScan :: "world \<Rightarrow> world" where
  "handleScan w =
     (case captureFrame (page w) of
        None \<Rightarrow> w
      | Some base64 \<Rightarrow>
          if base64 = [] then w
          else
            (let w1 = setCapturedImage (Some (dataUrl base64)) w;
                 w2 = setAppState ANALYZING w1
             in await (AnalyzeImageAndCreatePlan base64) w2))"

definition handleScan_resolved :: "RepairPlan promise \<Rightarrow> world \<Rightarrow> world" where
  "handleScan_resolved res w =
     (case res of
        Fulfilled plan \<Rightarrow>
          (let w1 = setRepairPlan (Some plan) w;
               w2 = setCurrentStepIndex (\<lambda>_. 0) w1
           in setAppState REPAIR_GUIDE w2)
      | Rejected \<Rightarrow>
          (let w1 = setErrorMsg
                 (Some ''Gemini could not identify the issue. Please try again with better lighting.'') w
           in setAppState ERROR w1))"

subsection \<open>handleNextStep\<close>

definition handleNextStep :: "session \<Rightarrow> world \<Rightarrow> world" where
  "handleNextStep r w =
     (let w1 = setAssistantResponse None w in
      case repairPlan r of
        None \<Rightarrow> w1
      | Some plan \<Rightarrow>
          if currentStepIndex r < int (length (steps plan)) - 1 then
            (let w2 = setCurrentStepIndex (\<lambda>prev. prev + 1) w1;
                 w3 = setCapturedImage None w2
             in setAppState REPAIR_GUIDE w3)
          else setAppState COMPLETED w1)"

subsection \<open>handleVerifyStep\<close>

definition handleVerifyStep :: "session \<Rightarrow> world \<Rightarrow> world" where
  "handleVerifyStep r w =
     (let w1 = setCapturedImage None w;
          w2 = setAppState VERIFYING w1
      in await (VerifyTimeout r) w2)"

text \<open>
  The callback given to \<open>setTimeout\<close>. Reading \<open>currentStep.instruction\<close> of a step
  outside the plan throws a TypeError, which ends the callback with nothing changed.
\<close>

definition handleVerifyStep_timeout :: "session \<Rightarrow> world \<Rightarrow> world" where
  "handleVerifyStep_timeout r w =
     (case captureFrame (page w) of
        None \<Rightarrow> setAppState REPAIR_GUIDE w
      | Some base64 \<Rightarrow>
          if base64 = [] then setAppState REPAIR_GUIDE w
          else
            (case repairPlan r of
               None \<Rightarrow> w
             | Some plan \<Rightarrow>
                 (case js_index (steps plan) (currentStepIndex r) of
                    None \<Rightarrow> w
                  | Some currentStep \<Rightarrow>
                      await (VerifyRepairStep r base64 (instruction currentStep)) w)))"

definition handleVerifyStep_resolved ::
    "session \<Rightarrow> string \<Rightarrow> VerifyResult promise \<Rightarrow> world \<Rightarrow> world" where
  "handleVerifyStep_resolved r base64 res w =
     (case res of
        Rejected \<Rightarrow> w
      | Fulfilled result \<Rightarrow>
          if completed result then handleNextStep r w
          else
            (let w1 = setAssistantResponse (Some (''Verification Info: '' @ feedback result)) w;
                 w2 = speak (feedback result) w1;
                 w3 = setAppState REPAIR_GUIDE w2
             in setCapturedImage (Some (dataUrl base64)) w3))"

subsection \<open>Inspector: handleVideoClick and closeInspector\<close>

datatype pointer_event = MouseEvent real real | TouchEvent "(real \<times> real) list"

text \<open>
  \<open>clientX\<close> and \<open>clientY\<close> of the event: those of the first touch when the event has
  \<open>touches\<close>. With an empty touch list \<open>e.touches[0].clientX\<close> throws.
\<close>

definition clientPoint :: "pointer_event \<Rightarrow> (real \<times> real) option" where
  "clientPoint e =
     (case e of
        TouchEvent touches \<Rightarrow> js_index touches 0
      | MouseEvent clientX clientY \<Rightarrow> Some (clientX, clientY))"

text \<open>The percentage coordinates computed from the container's bounding box.\<close>

definition percentCoordinates :: "real \<Rightarrow> real \<Rightarrow> DOMRect \<Rightarrow> InspectorPoint" where
  "percentCoordinates clientX clientY rect =
     (let x = clientX - rect_left rect;
          y = clientY - rect_top rect;
          xPct = js_mul (js_div x (rect_width rect)) 100;
          yPct = js_mul (js_div y (rect_height rect)) 100
      in \<lparr>pt_x = xPct, pt_y = yPct\<rparr>)"

text \<open>
  The handler returns at once unless the state is REPAIR_GUIDE and there is a plan. The
  point and the state INSPECTING are set before the frame is captured; after a failed
  capture only the state is set back.
\<close>

definition handleVideoClick :: "pointer_event \<Rightarrow> world \<Rightarrow> world" where
  "handleVideoClick e w =
     (case repairPlan (ui w) of
        None \<Rightarrow> w
      | Some plan \<Rightarrow>
          if appState (ui w) \<noteq> REPAIR_GUIDE then w
          else
            (case clientPoint e of
               None \<Rightarrow> w
             | Some (clientX, clientY) \<Rightarrow>
                 (case containerRef (page w) of
                    None \<Rightarrow> w
                  | Some rect \<Rightarrow>
                      (let pt = percentCoordinates clientX clientY rect;
                           w1 = setInspectorPoint (Some pt) w;
                           w2 = setAppState INSPECTING w1
                       in case captureFrame (page w) of
                            None \<Rightarrow> setAppState REPAIR_GUIDE w2
                          | Some base64 \<Rightarrow>
                              if base64 = [] then setAppState REPAIR_GUIDE w2
                              else
                                (let w3 = setCapturedImage (Some (dataUrl base64)) w2
                                 in await (IdentifyComponentAtPoint base64 (pt_x pt) (pt_y pt)
                                             (objectName plan)) w3)))))"

definition handleVideoClick_resolved :: "ComponentInfo promise \<Rightarrow> world \<Rightarrow> world" where
  "handleVideoClick_resolved res w =
     (case res of
        Rejected \<Rightarrow> w
      | Fulfilled info \<Rightarrow>
          (let w1 = setComponentInfo (Some info) w
           in speak (''That is the '' @ name info @ ''.'') w1))"

definition closeInspector :: "world \<Rightarrow> world" where
  "closeInspector w =
     (let w1 = setInspectorPoint None w;
          w2 = setComponentInfo None w1;
          w3 = setCapturedImage None w2
      in setAppState REPAIR_GUIDE w3)"

subsection \<open>Assistant: startListening and stopListening\<close>

definition startListening :: "world \<Rightarrow> world" where
  "startListening w =
     (let w1 = setAssistantResponse (Some ''Listening...'') w;
          w2 = setIsListening True w1
      in case videoRef (page w2) of
           None \<Rightarrow> w2
         | Some video \<Rightarrow>
             (case srcObject video of
                None \<Rightarrow> w2
              | Some stream \<Rightarrow>
                  (case js_index (audioTracks stream) 0 of
                     None \<Rightarrow> w2
                   | Some audioTrack \<Rightarrow>
                       w2\<lparr>page := (page w2)
                            \<lparr>mediaRecorderRef := Some \<lparr>rec_track = audioTrack, recording = True\<rparr>,
                             audioChunksRef := []\<rparr>\<rparr>)))"

text \<open>\<open>recorder.ondataavailable\<close>: the chunk is pushed on \<open>audioChunksRef\<close>.\<close>

definition ondataavailable :: "string \<Rightarrow> world \<Rightarrow> world" where
  "ondataavailable chunk w =
     (case mediaRecorderRef (page w) of
        None \<Rightarrow> w
      | Some recorder \<Rightarrow> w\<lparr>page := (page w)\<lparr>audioChunksRef := audioChunksRef (page w) @ [chunk]\<rparr>\<rparr>)"

definition stopListening :: "session \<Rightarrow> world \<Rightarrow> world" where
  "stopListening r w =
     (case mediaRecorderRef (page w) of
        None \<Rightarrow> w
      | Some recorder \<Rightarrow>
          (let w1 = w\<lparr>page := (page w)\<lparr>mediaRecorderRef := Some (recorder\<lparr>recording := False\<rparr>)\<rparr>\<rparr>;
               w2 = setIsListening False w1;
               w3 = setAssistantResponse (Some ''Thinking...'') w2
           in await (RecorderStop r) w3))"

text \<open>
  \<open>onstop\<close> and, inside it, \<open>reader.onloadend\<close>: \<open>result\<close> is the data URL that the
  FileReader has made of the recorded chunks.
\<close>

definition stopListening_onloadend :: "session \<Rightarrow> string \<Rightarrow> world \<Rightarrow> world" where
  "stopListening_onloadend r result w =
     (let base64Audio = js_index (split_on CHR '','' result) 1 in
      case captureFrame (page w) of
        None \<Rightarrow> w
      | Some base64Image \<Rightarrow>
          if base64Image = [] then w
          else
            (case repairPlan r of
               None \<Rightarrow> w
             | Some plan \<Rightarrow>
                 (case js_index (steps plan) (currentStepIndex r) of
                    None \<Rightarrow> w
                  | Some step \<Rightarrow>
                      await (AskRepairAssistant base64Image base64Audio (instruction step)) w)))"

definition stopListening_resolved :: "string promise \<Rightarrow> world \<Rightarrow> world" where
  "stopListening_resolved res w =
     (case res of
        Rejected \<Rightarrow> w
      | Fulfilled response \<Rightarrow>
          (let w1 = setAssistantResponse (Some response) w
           in speak response w1))"

subsection \<open>resetApp\<close>

definition resetApp :: "world \<Rightarrow> world" where
  "resetApp w =
     (let w1 = setRepairPlan None w;
          w2 = setCurrentStepIndex (\<lambda>_. 0) w1;
          w3 = setCapturedImage None w2;
          w4 = setErrorMsg None w3;
          w5 = setAssistantResponse None w4
      in setAppState CAMERA_READY w5)"

section \<open>Runs of the component\<close>

text \<open>
  What can happen to the mounted component: the user presses one of its controls, the
  camera shows a new frame, the recorder delivers audio, or one piece of outstanding
  asynchronous work completes (\<open>Done i c\<close>: the \<open>i\<close>-th outstanding task completes with
  \<open>c\<close>). The synchronous part of a handler and each continuation run without
  interruption; a control pressed by the user runs the handler of the current render.
\<close>

datatype completion =
    Stream "MediaStream promise"
  | Plan "RepairPlan promise"
  | Timer
  | Verdict "VerifyResult promise"
  | Info "ComponentInfo promise"
  | Recorded string
  | Answer "string promise"

datatype event =
    StartRepair
  | Scan
  | Verify
  | Next
  | Tap pointer_event
  | ResumeRepair
  | AskStart
  | AskStop
  | Reset
  | VideoFrame string
  | AudioData string
  | Done nat completion

definition resume :: "task \<Rightarrow> completion \<Rightarrow> world \<Rightarrow> world option" where
  "resume t c w =
     (case (t, c) of
        (GetUserMedia, Stream res) \<Rightarrow> Some (startCamera_resolved res w)
      | (AnalyzeImageAndCreatePlan base64, Plan res) \<Rightarrow> Some (handleScan_resolved res w)
      | (VerifyTimeout r, Timer) \<Rightarrow> Some (handleVerifyStep_timeout r w)
      | (VerifyRepairStep r base64 instr, Verdict res) \<Rightarrow>
          Some (handleVerifyStep_resolved r base64 res w)
      | (IdentifyComponentAtPoint base64 xPct yPct object, Info res) \<Rightarrow>
          Some (handleVideoClick_resolved res w)
      | (RecorderStop r, Recorded result) \<Rightarrow> Some (stopListening_onloadend r result w)
      | (AskRepairAssistant base64Image base64Audio instr, Answer res) \<Rightarrow>
          Some (stopListening_resolved res w)
      | _ \<Rightarrow> None)"

definition newFrame :: "string \<Rightarrow> world \<Rightarrow> world" where
  "newFrame url w =
     (case videoRef (page w) of
        None \<Rightarrow> w
      | Some video \<Rightarrow> w\<lparr>page := (page w)\<lparr>videoRef := Some (video\<lparr>frameDataUrl := url\<rparr>)\<rparr>\<rparr>)"

definition fire :: "event \<Rightarrow> world \<Rightarrow> world option" where
  "fire e w =
     (case e of
        StartRepair \<Rightarrow> Some (startCamera w)
      | Scan \<Rightarrow> Some (handleScan w)
      | Verify \<Rightarrow> Some (handleVerifyStep (ui w) w)
      | Next \<Rightarrow> Some (handleNextStep (ui w) w)
      | Tap p \<Rightarrow> Some (handleVideoClick p w)
      | ResumeRepair \<Rightarrow> Some (closeInspector w)
      | AskStart \<Rightarrow> Some (startListening w)
      | AskStop \<Rightarrow> Some (stopListening (ui w) w)
      | Reset \<Rightarrow> Some (resetApp w)
      | VideoFrame url \<Rightarrow> Some (newFrame url w)
      | AudioData chunk \<Rightarrow> Some (ondataavailable chunk w)
      | Done i c \<Rightarrow>
          if i < length (tasks w)
          then resume (tasks w ! i) c (w\<lparr>tasks := take i (tasks w) @ drop (Suc i) (tasks w)\<rparr>)
          else None)"

fun exec :: "event list \<Rightarrow> world \<Rightarrow> world option" where
  "exec [] w = Some w"
| "exec (e # es) w = (case fire e w of None \<Rightarrow> None | Some w' \<Rightarrow> exec es w')"

text \<open>
  The controls that the JSX of the current render offers. The scan button, the reset
  buttons and the inspector card are rendered by App.tsx itself; verify, next and the
  microphone are callbacks handed to StepCard, which is rendered in the states
  REPAIR_GUIDE and VERIFYING when a plan is present. The container's click handler is
  always attached. A render that throws takes the component down; the runs below are
  not followed beyond a state whose render throws.
\<close>

definition offered :: "event \<Rightarrow> session \<Rightarrow> bool" where
  "offered e s =
     (let stepCard = ((appState s = REPAIR_GUIDE \<or> appState s = VERIFYING) \<and> repairPlan s \<noteq> None)
      in case e of
           StartRepair \<Rightarrow> appState s = INTRO
         | Scan \<Rightarrow> appState s = CAMERA_READY
         | Verify \<Rightarrow> stepCard
         | Next \<Rightarrow> stepCard
         | AskStart \<Rightarrow> stepCard
         | AskStop \<Rightarrow> stepCard
         | Tap p \<Rightarrow> True
         | ResumeRepair \<Rightarrow>
             appState s = INSPECTING \<and> inspectorPoint s \<noteq> None \<and> componentInfo s \<noteq> None
         | Reset \<Rightarrow> stepCard \<or> appState s = COMPLETED \<or> appState s = ERROR
         | VideoFrame url \<Rightarrow> True
         | AudioData chunk \<Rightarrow> True
         | Done i c \<Rightarrow> True)"

text \<open>A run in which every control pressed was offered when it was pressed.\<close>

fun session_run :: "event list \<Rightarrow> world \<Rightarrow> world option" where
  "session_run [] w = Some w"
| "session_run (e # es) w =
     (if offered e (ui w)
      then (case fire e w of None \<Rightarrow> None | Some w' \<Rightarrow> session_run es w')
      else None)"

text \<open>The component as mounted: nothing outstanding, nothing said yet.\<close>

definition mounted :: "refs \<Rightarrow> world" where
  "mounted d = \<lparr>ui = initialSession, page = d, spoken = [], tasks = []\<rparr>"


section \<open>Whole operations, with nothing else in between\<close>

text \<open>
  The scan button is pressed and the plan request completes; the verify button is
  pressed, the settle timer fires and the verification request completes. A new task is
  appended to the outstanding ones, so it sits at the index that was their number.
\<close>

definition scan :: "RepairPlan promise \<Rightarrow> world \<Rightarrow> world option" where
  "scan res w = (let n = length (tasks w) in exec [Scan, Done n (Plan res)] w)"

definition verifyCurrentStep :: "VerifyResult promise \<Rightarrow> world \<Rightarrow> world option" where
  "verifyCurrentStep res w =
     (let n = length (tasks w) in exec [Verify, Done n Timer, Done n (Verdict res)] w)"

section \<open>Properties of sessions\<close>

text \<open>The step cursor points at a step of the plan, when there is a plan.\<close>

definition cursor_in_bounds :: "session \<Rightarrow> bool" where
  "cursor_in_bounds s =
     (case repairPlan s of
        None \<Rightarrow> True
      | Some plan \<Rightarrow> 0 \<le> currentStepIndex s \<and> currentStepIndex s < int (length (steps plan)))"

text \<open>
  \<open>repairPlan.steps[currentStepIndex]\<close>, the step whose \<open>visualCue\<close> the render reads
  in REPAIR_GUIDE and which it hands to StepCard: \<open>undefined\<close> (here \<open>None\<close>) when the
  cursor is outside the plan, and then reading its \<open>visualCue\<close> throws.
\<close>

definition current_step :: "session \<Rightarrow> RepairStep option" where
  "current_step s =
     (case repairPlan s of
        None \<Rightarrow> None
      | Some plan \<Rightarrow> js_index (steps plan) (currentStepIndex s))"

text \<open>The events that put the cursor back to 0: a reset and the arrival of a new plan.\<close>

definition restarts_cursor :: "event \<Rightarrow> bool" where
  "restarts_cursor e =
     (case e of
        Reset \<Rightarrow> True
      | Done i c \<Rightarrow>
          (case c of
             Plan res \<Rightarrow> (case res of Fulfilled plan \<Rightarrow> True | Rejected \<Rightarrow> False)
           | _ \<Rightarrow> False)
      | _ \<Rightarrow> False)"

text \<open>The events that run \<open>handleNextStep\<close>: the next button and a successful verification.\<close>

definition advances_cursor :: "event \<Rightarrow> bool" where
  "advances_cursor e =
     (case e of
        Next \<Rightarrow> True
      | Done i c \<Rightarrow>
          (case c of
             Verdict res \<Rightarrow> (case res of Fulfilled result \<Rightarrow> completed result | Rejected \<Rightarrow> False)
           | _ \<Rightarrow> False)
      | _ \<Rightarrow> False)"

definition same_plan_and_step :: "session \<Rightarrow> session \<Rightarrow> bool" where
  "same_plan_and_step r s = (repairPlan r = repairPlan s \<and> currentStepIndex r = currentStepIndex s)"

text \<open>
  An event is regular when a plan that arrives has at least one step, and a successful
  verification arrives while the session still has the plan and the cursor of the render
  in which the verification was requested.
\<close>

definition regular :: "event \<Rightarrow> world \<Rightarrow> bool" where
  "regular e w =
     (case e of
        Done i c \<Rightarrow>
          (case c of
             Plan res \<Rightarrow> (case res of Fulfilled plan \<Rightarrow> steps plan \<noteq> [] | Rejected \<Rightarrow> True)
           | Verdict res \<Rightarrow>
               (case res of
                  Fulfilled result \<Rightarrow>
                    (if completed result then
                       (case js_index (tasks w) (int i) of
                          Some (VerifyRepairStep r base64 instr) \<Rightarrow> same_plan_and_step r (ui w)
                        | _ \<Rightarrow> True)
                     else True)
                | Rejected \<Rightarrow> True)
           | _ \<Rightarrow> True)
      | _ \<Rightarrow> True)"

fun regular_run :: "event list \<Rightarrow> world \<Rightarrow> bool" where
  "regular_run [] w = True"
| "regular_run (e # es) w =
     (regular e w \<and> (case fire e w of None \<Rightarrow> True | Some w' \<Rightarrow> regular_run es w'))"

text \<open>The events that are a control pressed by the user.\<close>

definition user_control :: "event \<Rightarrow> bool" where
  "user_control e =
     (case e of
        VideoFrame url \<Rightarrow> False
      | AudioData chunk \<Rightarrow> False
      | Done i c \<Rightarrow> False
      | _ \<Rightarrow> True)"

section \<open>An example session\<close>

definition example_page :: refs where
  "example_page =
     \<lparr>videoRef = Some \<lparr>srcObject = None, frameDataUrl = ''data:image/jpeg;base64,QUJD''\<rparr>,
      canvasRef = Some \<lparr>context2d = True\<rparr>,
      containerRef = Some \<lparr>rect_left = 0, rect_top = 0, rect_width = 200, rect_height = 400\<rparr>,
      mediaRecorderRef = None, audioChunksRef = [], speechSynthesis = True\<rparr>"

definition example_step :: "string \<Rightarrow> RepairStep" where
  "example_step t =
     \<lparr>step_id = 1, title = t, instruction = t,
      visualCue = \<lparr>cue_type = NoCue,
                   coordinates = \<lparr>ymin = 0, xmin = 0, ymax = 0, xmax = 0\<rparr>,
                   label = None, direction = None\<rparr>,
      toolNeeded = None, safetyWarning = None\<rparr>"

definition example_plan :: "string list \<Rightarrow> RepairPlan" where
  "example_plan ts =
     \<lparr>objectName = ''lamp'', issueDiagnosis = ''loose socket'', steps = map example_step ts\<rparr>"

definition example_stream :: MediaStream where
  "example_stream = \<lparr>audioTracks = [7]\<rparr>"

definition example_info :: "string \<Rightarrow> ComponentInfo" where
  "example_info n =
     \<lparr>name = n, function' = ''holds the bulb'', status = Damaged, details = ''bent contact''\<rparr>"

text \<open>
  The camera is granted, the lamp is scanned and a plan of two steps arrives; and the
  world this leads to.
\<close>

definition open_guide :: "event list" where
  "open_guide =
     [StartRepair, Done 0 (Stream (Fulfilled example_stream)), Scan,
      Done 0 (Plan (Fulfilled (example_plan [''open'', ''tighten''])))]"

definition example_guide :: world where
  "example_guide =
     \<lparr>ui = \<lparr>appState = REPAIR_GUIDE, repairPlan = Some (example_plan [''open'', ''tighten'']),
            currentStepIndex = 0, errorMsg = None, cameraActive = True,
            capturedImage = Some ''data:image/jpeg;base64,QUJD'', isListening = False,
            assistantResponse = None, inspectorPoint = None, componentInfo = None\<rparr>,
      page = example_page\<lparr>videoRef := Some \<lparr>srcObject = Some example_stream,
                                               frameDataUrl = ''data:image/jpeg;base64,QUJD''\<rparr>\<rparr>,
      spoken = [], tasks = []\<rparr>"

section \<open>Unfolding rules and facts about the example\<close>

lemmas setters = setAppState_def setRepairPlan_def setCurrentStepIndex_def setErrorMsg_def
  setCameraActive_def setCapturedImage_def setIsListening_def setAssistantResponse_def
  setInspectorPoint_def setComponentInfo_def await_def speak_def

lemmas handlers = startCamera_def startCamera_resolved_def handleScan_def handleScan_resolved_def
  handleNextStep_def handleVerifyStep_def handleVerifyStep_timeout_def handleVerifyStep_resolved_def
  handleVideoClick_def handleVideoClick_resolved_def closeInspector_def startListening_def
  ondataavailable_def stopListening_def stopListening_onloadend_def stopListening_resolved_def
  resetApp_def newFrame_def

lemmas examples = example_page_def example_step_def example_plan_def example_stream_def
  example_info_def open_guide_def mounted_def initialSession_def

lemmas running = offered_def fire_def resume_def captureFrame_def js_index_def dataUrl_def
  clientPoint_def percentCoordinates_def js_div_def js_mul_def Let_def

lemma example_guide_reached: "session_run open_guide (mounted example_page) = Some example_guide"
  by (simp add: running handlers setters examples example_guide_def)

lemma session_run_append:
  "session_run (es @ fs) w = (case session_run es w of None \<Rightarrow> None | Some w' \<Rightarrow> session_run fs w')"
  by (induction es arbitrary: w) (auto split: option.splits)

lemma exec_append:
  "exec (es @ fs) w = (case exec es w of None \<Rightarrow> None | Some w' \<Rightarrow> exec fs w')"
  by (induction es arbitrary: w) (auto split: option.splits)

lemma session_run_exec: "session_run es w = Some w' \<Longrightarrow> exec es w = Some w'"
  by (induction es arbitrary: w) (auto split: option.splits if_splits)

lemma from_guide:
  "session_run (open_guide @ es) (mounted example_page) = session_run es example_guide"
  by (simp add: session_run_append example_guide_reached)



section \<open>The step cursor\<close>

lemma resume_cursor:
  assumes "resume t c w = Some w'"
  shows "currentStepIndex (ui w') = currentStepIndex (ui w)
       \<or> currentStepIndex (ui w') = currentStepIndex (ui w) + 1
           \<and> (\<exists>result. c = Verdict (Fulfilled result) \<and> completed result)
       \<or> currentStepIndex (ui w') = 0 \<and> (\<exists>plan. c = Plan (Fulfilled plan))"
  using assms
  by (auto simp: resume_def handlers setters Let_def
      split: task.splits completion.splits promise.splits option.splits if_splits)

text \<open>
  One event leaves the cursor as it is, or adds one to it (and then the event ran
  \<open>handleNextStep\<close>), or puts it back to 0 (and then it was a reset or a new plan).
\<close>

lemma fire_cursor:
  assumes "fire e w = Some w'"
  shows "currentStepIndex (ui w') = currentStepIndex (ui w)
       \<or> currentStepIndex (ui w') = currentStepIndex (ui w) + 1 \<and> advances_cursor e
       \<or> currentStepIndex (ui w') = 0 \<and> restarts_cursor e"
proof (cases e)
  case (Done i c)
  with assms have
    "resume (tasks w ! i) c (w\<lparr>tasks := take i (tasks w) @ drop (Suc i) (tasks w)\<rparr>) = Some w'"
    by (simp add: fire_def split: if_splits)
  from resume_cursor[OF this] Done show ?thesis
    by (auto simp: advances_cursor_def restarts_cursor_def)
qed (use assms in \<open>auto simp: fire_def handlers setters Let_def advances_cursor_def
      restarts_cursor_def split: option.splits if_splits prod.splits\<close>)

lemma handleNextStep_bounds:
  assumes "cursor_in_bounds (ui w)" and "same_plan_and_step r (ui w)"
  shows "cursor_in_bounds (ui (handleNextStep r w))"
  using assms
  by (auto simp: cursor_in_bounds_def same_plan_and_step_def handleNextStep_def setters Let_def
      split: option.splits)

lemma resume_bounds:
  assumes "resume t c w = Some w'" and "cursor_in_bounds (ui w)"
    and "\<And>plan. c = Plan (Fulfilled plan) \<Longrightarrow> steps plan \<noteq> []"
    and "\<And>r base64 instr result. t = VerifyRepairStep r base64 instr \<Longrightarrow>
           c = Verdict (Fulfilled result) \<Longrightarrow> completed result \<Longrightarrow> same_plan_and_step r (ui w)"
  shows "cursor_in_bounds (ui w')"
proof (cases "\<exists>r base64 instr result.
                t = VerifyRepairStep r base64 instr \<and> c = Verdict (Fulfilled result) \<and> completed result")
  case True
  then obtain r base64 instr result where
    tc: "t = VerifyRepairStep r base64 instr" "c = Verdict (Fulfilled result)" "completed result"
    by blast
  with assms(1) have "w' = handleNextStep r w"
    by (simp add: resume_def handleVerifyStep_resolved_def)
  with handleNextStep_bounds[OF assms(2) assms(4)[OF tc]] show ?thesis by simp
next
  case False
  with assms(1,2,3) show ?thesis
    by (auto simp: resume_def handlers setters Let_def cursor_in_bounds_def
        split: task.splits completion.splits promise.splits option.splits if_splits)
qed

lemma fire_bounds:
  assumes "fire e w = Some w'" and "cursor_in_bounds (ui w)" and "regular e w"
  shows "cursor_in_bounds (ui w')"
proof (cases e)
  case (Done i c)
  with assms(1) have i: "i < length (tasks w)"
    and r: "resume (tasks w ! i) c (w\<lparr>tasks := take i (tasks w) @ drop (Suc i) (tasks w)\<rparr>) = Some w'"
    by (simp_all add: fire_def split: if_splits)
  show ?thesis
  proof (rule resume_bounds[OF r])
    show "cursor_in_bounds (ui (w\<lparr>tasks := take i (tasks w) @ drop (Suc i) (tasks w)\<rparr>))"
      using assms(2) by simp
  next
    fix plan assume "c = Plan (Fulfilled plan)"
    with assms(3) Done show "steps plan \<noteq> []" by (simp add: regular_def)
  next
    fix r base64 instr result
    assume "tasks w ! i = VerifyRepairStep r base64 instr" "c = Verdict (Fulfilled result)"
      "completed result"
    with assms(3) Done i
    show "same_plan_and_step r (ui (w\<lparr>tasks := take i (tasks w) @ drop (Suc i) (tasks w)\<rparr>))"
      by (simp add: regular_def js_index_def)
  qed
next
  case Next
  with assms show ?thesis
    by (auto simp: fire_def same_plan_and_step_def intro!: handleNextStep_bounds)
qed (use assms in \<open>auto simp: fire_def handlers setters Let_def cursor_in_bounds_def
      split: option.splits if_splits prod.splits\<close>)

lemma exec_bounds:
  assumes "exec es w = Some w'" and "cursor_in_bounds (ui w)" and "regular_run es w"
  shows "cursor_in_bounds (ui w')"
  using assms
proof (induction es arbitrary: w)
  case Nil
  then show ?case by simp
next
  case (Cons e es)
  from Cons.prems(1) obtain w1 where f: "fire e w = Some w1" and x: "exec es w1 = Some w'"
    by (auto split: option.splits)
  from Cons.prems(3) f have "regular e w" "regular_run es w1" by simp_all
  with Cons.IH[OF x] fire_bounds[OF f Cons.prems(2)] show ?case by blast
qed

lemma exec_monotone:
  assumes "exec es w = Some w'" and "list_all (\<lambda>e. \<not> restarts_cursor e) es"
  shows "currentStepIndex (ui w) \<le> currentStepIndex (ui w')"
  using assms
proof (induction es arbitrary: w)
  case Nil
  then show ?case by simp
next
  case (Cons e es)
  from Cons.prems(1) obtain w1 where f: "fire e w = Some w1" and x: "exec es w1 = Some w'"
    by (auto split: option.splits)
  from Cons.prems(2) have "\<not> restarts_cursor e" "list_all (\<lambda>e. \<not> restarts_cursor e) es"
    by simp_all
  with fire_cursor[OF f] Cons.IH[OF x] show ?case by auto
qed

lemma mounted_in_bounds: "cursor_in_bounds (ui (mounted d))"
  by (simp add: cursor_in_bounds_def mounted_def initialSession_def)

text \<open>
  What the guard of \<open>handleNextStep\<close> achieves. Take any run of the component, whatever
  the order in which the user's actions, the timers and the answers of the service
  come, in which every plan that arrives has at least one step and every successful
  verification arrives while the session still has the plan and the cursor it was
  requested for. If the cursor points into the plan before the run (when there is a
  plan), it does so after it; the component as mounted has no plan
  (\<open>mounted_in_bounds\<close>). And in every run, regular or not, the cursor is only left as
  it is, incremented by one by \<open>handleNextStep\<close>, or put back to 0 by a reset or a new
  plan (\<open>fire_cursor\<close>), so that it never decreases over a run with no reset and no
  new plan (\<open>exec_monotone\<close>).
\<close>

lemma regular_run_in_bounds:
  assumes "cursor_in_bounds (ui w)" and "regular_run es w" and "exec es w = Some w'"
  shows "cursor_in_bounds (ui w')"
  using exec_bounds[OF assms(3,1,2)] .

text \<open>
  A plan with no steps is not refused by \<open>handleScan\<close>: it is stored as it comes, with
  the cursor at 0.
\<close>

lemma empty_plan_stored:
  "map_option (repairPlan \<circ> ui)
     (session_run [StartRepair, Done 0 (Stream (Fulfilled example_stream)), Scan,
                   Done 0 (Plan (Fulfilled (example_plan [])))] (mounted example_page))
     = Some (Some (example_plan []))
   \<and> map_option (currentStepIndex \<circ> ui)
     (session_run [StartRepair, Done 0 (Stream (Fulfilled example_stream)), Scan,
                   Done 0 (Plan (Fulfilled (example_plan [])))] (mounted example_page))
     = Some 0
   \<and> length (steps (example_plan [])) = 0"
  by (simp add: running handlers setters examples)

text \<open>
  Claim C1 (whenever a plan is present the step cursor is at least 0 and less than the
  number of its steps, and it does not decrease between two resets) does not hold of
  the code. In the example session, on the first step of the two-step plan, a
  verification is requested and its call is issued; while it is outstanding the session
  is reset with the button rendered in VERIFYING, the lamp is scanned again and a plan
  of one step arrives; then the verification completes with success. Its
  \<open>handleNextStep\<close> tests the cursor and the plan of the render in which the
  verification was requested (0 is less than 2 - 1) and increments the cursor of the
  session: the session is in REPAIR_GUIDE with a plan of one step and the cursor at 1,
  and the step that its render reads is undefined.
\<close>

theorem stale_verification_overruns_plan:
  "map_option (repairPlan \<circ> ui)
     (session_run (open_guide @
        [Verify, Done 0 Timer, Reset, Scan,
         Done 1 (Plan (Fulfilled (example_plan [''reseat'']))),
         Done 0 (Verdict (Fulfilled \<lparr>completed = True, feedback = ''open''\<rparr>))])
        (mounted example_page))
     = Some (Some (example_plan [''reseat'']))
   \<and> length (steps (example_plan [''reseat''])) = 1
   \<and> map_option (currentStepIndex \<circ> ui)
     (session_run (open_guide @
        [Verify, Done 0 Timer, Reset, Scan,
         Done 1 (Plan (Fulfilled (example_plan [''reseat'']))),
         Done 0 (Verdict (Fulfilled \<lparr>completed = True, feedback = ''open''\<rparr>))])
        (mounted example_page))
     = Some 1
   \<and> map_option (appState \<circ> ui)
     (session_run (open_guide @
        [Verify, Done 0 Timer, Reset, Scan,
         Done 1 (Plan (Fulfilled (example_plan [''reseat'']))),
         Done 0 (Verdict (Fulfilled \<lparr>completed = True, feedback = ''open''\<rparr>))])
        (mounted example_page))
     = Some REPAIR_GUIDE
   \<and> map_option (current_step \<circ> ui)
     (session_run (open_guide @
        [Verify, Done 0 Timer, Reset, Scan,
         Done 1 (Plan (Fulfilled (example_plan [''reseat'']))),
         Done 0 (Verdict (Fulfilled \<lparr>completed = True, feedback = ''open''\<rparr>))])
        (mounted example_page))
     = Some None
   \<and> map_option (cursor_in_bounds \<circ> ui)
     (session_run (open_guide @
        [Verify, Done 0 Timer, Reset, Scan,
         Done 1 (Plan (Fulfilled (example_plan [''reseat'']))),
         Done 0 (Verdict (Fulfilled \<lparr>completed = True, feedback = ''open''\<rparr>))])
        (mounted example_page))
     = Some False"
  by (simp add: from_guide)
    (simp add: running handlers setters examples example_guide_def current_step_def
      cursor_in_bounds_def)


section \<open>Verification of the current step\<close>

text \<open>
  Claim C2, as amended. When the session has a plan, the cursor points at one of its
  steps and a frame can be captured, a verification that the oracle answers with
  \<open>{completed: false, feedback: f}\<close> leaves the step cursor unchanged, sets the
  assistant's response to the text \<open>Verification Info: \<close> followed by \<open>f\<close>, speaks
  \<open>f\<close>, shows as frozen frame the data URL of the frame that was checked, and returns
  to REPAIR_GUIDE. Nothing else changes.
\<close>

theorem verify_not_completed:
  assumes "repairPlan (ui w) = Some plan"
    and "js_index (steps plan) (currentStepIndex (ui w)) = Some step"
    and "captureFrame (page w) = Some base64"
    and "base64 \<noteq> []"
  shows "verifyCurrentStep (Fulfilled \<lparr>completed = False, feedback = f\<rparr>) w =
           Some (w\<lparr>ui := (ui w)\<lparr>appState := REPAIR_GUIDE,
                                 capturedImage := Some (dataUrl base64),
                                 assistantResponse := Some (''Verification Info: '' @ f)\<rparr>,
                   spoken := (if speechSynthesis (page w) then spoken w @ [f] else spoken w)\<rparr>)"
  using assms
  by (simp add: verifyCurrentStep_def fire_def resume_def handleVerifyStep_def
      handleVerifyStep_timeout_def handleVerifyStep_resolved_def setters Let_def nth_append)

theorem verify_not_completed_witness:
  "captureFrame (page example_guide) = Some ''QUJD''
   \<and> verifyCurrentStep (Fulfilled \<lparr>completed = False, feedback = ''loose screw''\<rparr>) example_guide =
       Some (example_guide
               \<lparr>ui := (ui example_guide)
                  \<lparr>appState := REPAIR_GUIDE,
                   capturedImage := Some ''data:image/jpeg;base64,QUJD'',
                   assistantResponse := Some ''Verification Info: loose screw''\<rparr>,
                spoken := [''loose screw'']\<rparr>)"
proof -
  have p: "repairPlan (ui example_guide) = Some (example_plan [''open'', ''tighten''])"
    by (simp add: example_guide_def)
  have s: "js_index (steps (example_plan [''open'', ''tighten''])) (currentStepIndex (ui example_guide))
             = Some (example_step ''open'')"
    by (simp add: example_guide_def example_plan_def js_index_def)
  have c: "captureFrame (page example_guide) = Some ''QUJD''"
    by (simp add: example_guide_def example_page_def captureFrame_def js_index_def)
  from verify_not_completed[OF p s c, of "''loose screw''"] c show ?thesis
    by (simp add: example_guide_def example_page_def dataUrl_def)
qed

text \<open>
  The claim as stated fails: after the example's first step has been verified with the
  feedback \<open>loose screw\<close>, the assistant's response is not that text.
\<close>

theorem verify_feedback_counterexample:
  "map_option (assistantResponse \<circ> ui)
     (session_run (open_guide @
        [Verify, Done 0 Timer,
         Done 0 (Verdict (Fulfilled \<lparr>completed = False, feedback = ''loose screw''\<rparr>))])
        (mounted example_page))
     = Some (Some ''Verification Info: loose screw'')
   \<and> map_option (assistantResponse \<circ> ui)
     (session_run (open_guide @
        [Verify, Done 0 Timer,
         Done 0 (Verdict (Fulfilled \<lparr>completed = False, feedback = ''loose screw''\<rparr>))])
        (mounted example_page))
     \<noteq> Some (Some ''loose screw'')"
  by (simp add: from_guide) (simp add: running handlers setters examples example_guide_def)

text \<open>
  Claim C3. When the session has a plan, the cursor points at one of its steps and a
  frame can be captured, a verification that the oracle answers with
  \<open>{completed: true, ...}\<close> ends in COMPLETED if the cursor is at the last step of the
  plan; otherwise the cursor is incremented by exactly 1, the frozen frame is cleared
  and the state is REPAIR_GUIDE again.
\<close>

theorem verify_completed:
  assumes "repairPlan (ui w) = Some plan"
    and "js_index (steps plan) (currentStepIndex (ui w)) = Some step"
    and "captureFrame (page w) = Some base64"
    and "base64 \<noteq> []"
  shows "verifyCurrentStep (Fulfilled \<lparr>completed = True, feedback = f\<rparr>) w =
           Some (if currentStepIndex (ui w) = int (length (steps plan)) - 1
                 then w\<lparr>ui := (ui w)\<lparr>appState := COMPLETED, capturedImage := None,
                                       assistantResponse := None\<rparr>\<rparr>
                 else w\<lparr>ui := (ui w)\<lparr>appState := REPAIR_GUIDE, capturedImage := None,
                                       assistantResponse := None,
                                       currentStepIndex := currentStepIndex (ui w) + 1\<rparr>\<rparr>)"
  using assms
  by (auto simp: verifyCurrentStep_def fire_def resume_def handleVerifyStep_def
      handleVerifyStep_timeout_def handleVerifyStep_resolved_def handleNextStep_def setters
      Let_def nth_append js_index_def split: if_splits)

text \<open>The example session at its first step, and again at its second and last one.\<close>

theorem verify_completed_witness:
  "map_option (appState \<circ> ui)
     (verifyCurrentStep (Fulfilled \<lparr>completed = True, feedback = ''ok''\<rparr>) example_guide)
     = Some REPAIR_GUIDE
   \<and> map_option (currentStepIndex \<circ> ui)
     (verifyCurrentStep (Fulfilled \<lparr>completed = True, feedback = ''ok''\<rparr>) example_guide)
     = Some 1
   \<and> map_option (capturedImage \<circ> ui)
     (verifyCurrentStep (Fulfilled \<lparr>completed = True, feedback = ''ok''\<rparr>) example_guide)
     = Some None
   \<and> map_option (appState \<circ> ui)
     (verifyCurrentStep (Fulfilled \<lparr>completed = True, feedback = ''ok''\<rparr>)
        (setCurrentStepIndex (\<lambda>prev. prev + 1) example_guide))
     = Some COMPLETED
   \<and> map_option (currentStepIndex \<circ> ui)
     (verifyCurrentStep (Fulfilled \<lparr>completed = True, feedback = ''ok''\<rparr>)
        (setCurrentStepIndex (\<lambda>prev. prev + 1) example_guide))
     = Some 1"
proof -
  let ?w = "setCurrentStepIndex (\<lambda>prev. prev + 1) example_guide"
  have p: "repairPlan (ui example_guide) = Some (example_plan [''open'', ''tighten''])"
    "repairPlan (ui ?w) = Some (example_plan [''open'', ''tighten''])"
    by (simp_all add: example_guide_def setters)
  have s: "js_index (steps (example_plan [''open'', ''tighten''])) (currentStepIndex (ui example_guide))
             = Some (example_step ''open'')"
    "js_index (steps (example_plan [''open'', ''tighten''])) (currentStepIndex (ui ?w))
             = Some (example_step ''tighten'')"
    by (simp_all add: example_guide_def example_plan_def js_index_def setters)
  have c: "captureFrame (page example_guide) = Some ''QUJD''"
    "captureFrame (page ?w) = Some ''QUJD''"
    by (simp_all add: example_guide_def example_page_def captureFrame_def js_index_def setters)
  from verify_completed[OF p(1) s(1) c(1), of "''ok''"]
    verify_completed[OF p(2) s(2) c(2), of "''ok''"]
  show ?thesis
    by (simp add: example_guide_def example_plan_def setters)
qed

section \<open>Scanning\<close>

text \<open>
  Claim C4, as amended. When a frame can be captured and the plan request of a scan
  succeeds, the plan is set, the step cursor is 0 and the state is REPAIR_GUIDE; the
  frozen frame is not cleared: it is still the data URL of the frame that was analysed.
  Nothing else changes.
\<close>

theorem scan_succeeds:
  assumes "captureFrame (page w) = Some base64" and "base64 \<noteq> []"
  shows "scan (Fulfilled plan) w =
           Some (w\<lparr>ui := (ui w)\<lparr>appState := REPAIR_GUIDE, repairPlan := Some plan,
                                 currentStepIndex := 0,
                                 capturedImage := Some (dataUrl base64)\<rparr>\<rparr>)"
  using assms
  by (simp add: scan_def fire_def resume_def handleScan_def handleScan_resolved_def setters
      Let_def nth_append)

theorem scan_succeeds_witness:
  "captureFrame (page (resetApp example_guide)) = Some ''QUJD''
   \<and> scan (Fulfilled (example_plan [''reseat''])) (resetApp example_guide) =
       Some (example_guide
               \<lparr>ui := (ui example_guide)\<lparr>repairPlan := Some (example_plan [''reseat''])\<rparr>\<rparr>)"
proof -
  have c: "captureFrame (page (resetApp example_guide)) = Some ''QUJD''"
    by (simp add: resetApp_def setters example_guide_def example_page_def captureFrame_def
        js_index_def Let_def)
  from scan_succeeds[OF c, of "example_plan [''reseat'']"] c show ?thesis
    by (simp add: resetApp_def setters example_guide_def dataUrl_def Let_def)
qed

text \<open>
  The claim as stated fails: when the example's plan has arrived the frozen frame is
  still there.
\<close>

theorem scan_keeps_frozen_frame_counterexample:
  "map_option (capturedImage \<circ> ui) (session_run open_guide (mounted example_page))
     = Some (Some ''data:image/jpeg;base64,QUJD'')
   \<and> map_option (capturedImage \<circ> ui) (session_run open_guide (mounted example_page)) \<noteq> Some None
   \<and> map_option (appState \<circ> ui) (session_run open_guide (mounted example_page))
     = Some REPAIR_GUIDE"
  by (simp add: example_guide_reached) (simp add: example_guide_def)


section \<open>The inspector\<close>

text \<open>
  Claim C5, as amended. \<open>closeInspector\<close> clears the inspector's point, the component
  info and the frozen frame and returns to REPAIR_GUIDE, also while an identify call is
  outstanding. When that call resolves afterwards its result is not discarded: the
  component info is set to it and the component is named aloud. The state, the
  inspector's point and the frozen frame stay as \<open>closeInspector\<close> left them, so the
  inspector is not shown again.
\<close>

theorem close_then_late_identify:
  assumes "i < length (tasks w)"
    and "tasks w ! i = IdentifyComponentAtPoint base64 xPct yPct object"
  shows "exec [ResumeRepair, Done i (Info (Fulfilled info))] w =
           Some (w\<lparr>ui := (ui w)\<lparr>inspectorPoint := None, capturedImage := None,
                                 appState := REPAIR_GUIDE, componentInfo := Some info\<rparr>,
                   spoken := (if speechSynthesis (page w)
                              then spoken w @ [''That is the '' @ name info @ ''.'']
                              else spoken w),
                   tasks := take i (tasks w) @ drop (Suc i) (tasks w)\<rparr>)"
  using assms
  by (simp add: fire_def resume_def closeInspector_def handleVideoClick_resolved_def setters
      Let_def)

theorem close_then_late_identify_witness:
  "tasks (handleVideoClick (MouseEvent 100 200) example_guide)
     = [IdentifyComponentAtPoint ''QUJD'' (Fin 50) (Fin 50) ''lamp'']
   \<and> exec [ResumeRepair, Done 0 (Info (Fulfilled (example_info ''socket'')))]
        (handleVideoClick (MouseEvent 100 200) example_guide)
     = Some (example_guide
               \<lparr>ui := (ui example_guide)
                  \<lparr>capturedImage := None, componentInfo := Some (example_info ''socket'')\<rparr>,
                spoken := [''That is the socket.'']\<rparr>)"
proof -
  let ?w = "handleVideoClick (MouseEvent 100 200) example_guide"
  have t: "tasks ?w = [IdentifyComponentAtPoint ''QUJD'' (Fin 50) (Fin 50) ''lamp'']"
    by (simp add: handleVideoClick_def running setters examples example_guide_def)
  then have i: "0 < length (tasks ?w)"
    and n: "tasks ?w ! 0 = IdentifyComponentAtPoint ''QUJD'' (Fin 50) (Fin 50) ''lamp''"
    by simp_all
  from close_then_late_identify[OF i n, of "example_info ''socket''"] t show ?thesis
    by (simp add: handleVideoClick_def running setters examples example_guide_def)
qed

text \<open>
  The claim as stated fails: the inspector is closed while the identification of the
  tapped part is outstanding, and the late result is stored as component info.
\<close>

theorem late_identify_counterexample:
  "map_option (componentInfo \<circ> ui)
     (exec (open_guide @ [Tap (MouseEvent 100 200), ResumeRepair]) (mounted example_page))
     = Some None
   \<and> map_option tasks
     (exec (open_guide @ [Tap (MouseEvent 100 200), ResumeRepair]) (mounted example_page))
     = Some [IdentifyComponentAtPoint ''QUJD'' (Fin 50) (Fin 50) ''lamp'']
   \<and> map_option (componentInfo \<circ> ui)
     (exec (open_guide @ [Tap (MouseEvent 100 200), ResumeRepair,
                          Done 0 (Info (Fulfilled (example_info ''socket'')))])
        (mounted example_page))
     = Some (Some (example_info ''socket''))"
  by (simp add: exec_append session_run_exec[OF example_guide_reached])
    (simp add: running handlers setters examples example_guide_def)

text \<open>
  The card with the resume button is rendered only when there is component info, which
  a first identification has not got while it is outstanding. The situation of the
  claim arises all the same with the controls that are offered: a verification is
  requested, the session is reset and a new plan scanned; a part is tapped; the old
  verification's answer closes the inspector; the identification's answer is stored;
  at the next tap the card shows that stale info, and its button closes the inspector
  while the second identification is outstanding.
\<close>

lemma resume_offered_while_identifying:
  "map_option (componentInfo \<circ> ui)
     (session_run (open_guide @
        [Verify, Done 0 Timer, Reset, Scan,
         Done 1 (Plan (Fulfilled (example_plan [''reseat'']))),
         Tap (MouseEvent 100 200),
         Done 0 (Verdict (Fulfilled \<lparr>completed = False, feedback = ''loose screw''\<rparr>)),
         Done 0 (Info (Fulfilled (example_info ''socket''))),
         Tap (MouseEvent 20 40),
         ResumeRepair,
         Done 0 (Info (Fulfilled (example_info ''switch'')))])
        (mounted example_page))
     = Some (Some (example_info ''switch''))"
  by (simp add: from_guide) (simp add: running handlers setters examples example_guide_def)

text \<open>
  Claim C6, as amended. \<open>handleScan\<close> either does nothing or issues the plan request,
  and \<open>handleVideoClick\<close> either does nothing, or gives up after a failed capture, or
  issues the identify request; when a request is issued, the frozen frame has been set,
  in the same uninterrupted block, to the data URL of exactly the frame that is sent.
  While the state is ANALYZING, or INSPECTING with no component info yet, no control
  that is offered to the user changes anything. The frozen frame is not protected
  against the continuations of earlier work that complete while the request is
  outstanding.
\<close>

theorem frozen_frame_when_call_is_issued:
  "(handleScan w = w
      \<or> (\<exists>base64. captureFrame (page w) = Some base64
            \<and> handleScan w =
                w\<lparr>ui := (ui w)\<lparr>capturedImage := Some (dataUrl base64), appState := ANALYZING\<rparr>,
                  tasks := tasks w @ [AnalyzeImageAndCreatePlan base64]\<rparr>))
   \<and> (handleVideoClick p w = w
      \<or> (\<exists>pt. handleVideoClick p w =
                w\<lparr>ui := (ui w)\<lparr>inspectorPoint := Some pt, appState := REPAIR_GUIDE\<rparr>\<rparr>)
      \<or> (\<exists>base64 pt plan. captureFrame (page w) = Some base64
            \<and> repairPlan (ui w) = Some plan
            \<and> handleVideoClick p w =
                w\<lparr>ui := (ui w)\<lparr>inspectorPoint := Some pt, appState := INSPECTING,
                                capturedImage := Some (dataUrl base64)\<rparr>,
                  tasks := tasks w @ [IdentifyComponentAtPoint base64 (pt_x pt) (pt_y pt)
                                        (objectName plan)]\<rparr>))
   \<and> (user_control e \<and> offered e (ui w)
        \<and> (appState (ui w) = ANALYZING
             \<or> appState (ui w) = INSPECTING \<and> componentInfo (ui w) = None)
      \<longrightarrow> fire e w = Some w)"
proof (intro conjI impI)
  show "handleScan w = w
      \<or> (\<exists>base64. captureFrame (page w) = Some base64
            \<and> handleScan w =
                w\<lparr>ui := (ui w)\<lparr>capturedImage := Some (dataUrl base64), appState := ANALYZING\<rparr>,
                  tasks := tasks w @ [AnalyzeImageAndCreatePlan base64]\<rparr>)"
    by (simp add: handleScan_def setters Let_def split: option.splits)
next
  show "handleVideoClick p w = w
      \<or> (\<exists>pt. handleVideoClick p w =
                w\<lparr>ui := (ui w)\<lparr>inspectorPoint := Some pt, appState := REPAIR_GUIDE\<rparr>\<rparr>)
      \<or> (\<exists>base64 pt plan. captureFrame (page w) = Some base64
            \<and> repairPlan (ui w) = Some plan
            \<and> handleVideoClick p w =
                w\<lparr>ui := (ui w)\<lparr>inspectorPoint := Some pt, appState := INSPECTING,
                                capturedImage := Some (dataUrl base64)\<rparr>,
                  tasks := tasks w @ [IdentifyComponentAtPoint base64 (pt_x pt) (pt_y pt)
                                        (objectName plan)]\<rparr>)"
    by (auto simp: handleVideoClick_def setters Let_def split: option.splits prod.splits)
next
  assume "user_control e \<and> offered e (ui w)
        \<and> (appState (ui w) = ANALYZING
             \<or> appState (ui w) = INSPECTING \<and> componentInfo (ui w) = None)"
  then show "fire e w = Some w"
    by (cases e)
      (auto simp: user_control_def offered_def fire_def handleVideoClick_def
        split: option.splits)
qed

theorem frozen_frame_when_call_is_issued_witness:
  "handleScan (resetApp example_guide) =
     (resetApp example_guide)
       \<lparr>ui := (ui (resetApp example_guide))
          \<lparr>capturedImage := Some (dataUrl ''QUJD''), appState := ANALYZING\<rparr>,
        tasks := [AnalyzeImageAndCreatePlan ''QUJD'']\<rparr>
   \<and> fire (Tap (MouseEvent 100 200)) (handleScan (resetApp example_guide))
     = Some (handleScan (resetApp example_guide))"
proof -
  let ?w = "handleScan (resetApp example_guide)"
  have w: "?w = (resetApp example_guide)
       \<lparr>ui := (ui (resetApp example_guide))
          \<lparr>capturedImage := Some (dataUrl ''QUJD''), appState := ANALYZING\<rparr>,
        tasks := [AnalyzeImageAndCreatePlan ''QUJD'']\<rparr>"
    by (simp add: handleScan_def resetApp_def running setters examples example_guide_def)
  have "user_control (Tap (MouseEvent 100 200))
        \<and> offered (Tap (MouseEvent 100 200)) (ui ?w)
        \<and> (appState (ui ?w) = ANALYZING
             \<or> appState (ui ?w) = INSPECTING \<and> componentInfo (ui ?w) = None)"
    by (simp add: w user_control_def offered_def)
  with frozen_frame_when_call_is_issued[of ?w "MouseEvent 100 200" "Tap (MouseEvent 100 200)"] w
  show ?thesis by simp
qed

text \<open>
  The claim as stated fails: a verification is requested on one frame, the session is
  reset and a scan sends a later frame; the verification's answer then puts the frame
  it had checked on the screen while the scan's request is still outstanding.
\<close>

theorem frozen_frame_overwritten_counterexample:
  "map_option tasks
     (session_run (open_guide @
        [Verify, VideoFrame ''data:image/jpeg;base64,REVG'', Done 0 Timer, Reset,
         VideoFrame ''data:image/jpeg;base64,R0hJ'', Scan,
         Done 0 (Verdict (Fulfilled \<lparr>completed = False, feedback = ''loose screw''\<rparr>))])
        (mounted example_page))
     = Some [AnalyzeImageAndCreatePlan ''R0hJ'']
   \<and> map_option (capturedImage \<circ> ui)
     (session_run (open_guide @
        [Verify, VideoFrame ''data:image/jpeg;base64,REVG'', Done 0 Timer, Reset,
         VideoFrame ''data:image/jpeg;base64,R0hJ'', Scan,
         Done 0 (Verdict (Fulfilled \<lparr>completed = False, feedback = ''loose screw''\<rparr>))])
        (mounted example_page))
     = Some (Some (dataUrl ''REVG''))
   \<and> dataUrl ''REVG'' \<noteq> dataUrl ''R0hJ''"
  by (simp add: from_guide) (simp add: running handlers setters examples example_guide_def)


section \<open>Failed capture during an inspection\<close>

text \<open>
  Claim C8, as amended. When a tap in REPAIR_GUIDE, with a plan and a mounted container,
  finds that no frame can be captured, the state is REPAIR_GUIDE afterwards, no request
  is issued, and the component info and the frozen frame are as before, so that no
  inspector is shown (it is rendered in the state INSPECTING only); but the inspector's
  point is not absent: it holds the percentage coordinates of the tap.
\<close>

theorem capture_failure_during_inspect:
  assumes "appState (ui w) = REPAIR_GUIDE"
    and "repairPlan (ui w) = Some plan"
    and "clientPoint e = Some (clientX, clientY)"
    and "containerRef (page w) = Some rect"
    and "captureFrame (page w) = None \<or> captureFrame (page w) = Some []"
  shows "handleVideoClick e w =
           w\<lparr>ui := (ui w)\<lparr>inspectorPoint := Some (percentCoordinates clientX clientY rect),
                           appState := REPAIR_GUIDE\<rparr>\<rparr>"
  using assms by (auto simp: handleVideoClick_def setters Let_def)

text \<open>The example session when the canvas gives the empty picture \<open>data:,\<close>.\<close>

theorem capture_failure_during_inspect_witness:
  "captureFrame (page (newFrame ''data:,'' example_guide)) = Some []
   \<and> handleVideoClick (MouseEvent 100 200) (newFrame ''data:,'' example_guide) =
       (newFrame ''data:,'' example_guide)
         \<lparr>ui := (ui example_guide)\<lparr>inspectorPoint := Some \<lparr>pt_x = Fin 50, pt_y = Fin 50\<rparr>\<rparr>\<rparr>"
proof -
  let ?w = "newFrame ''data:,'' example_guide"
  have a: "appState (ui ?w) = REPAIR_GUIDE"
    and p: "repairPlan (ui ?w) = Some (example_plan [''open'', ''tighten''])"
    and r: "containerRef (page ?w)
              = Some \<lparr>rect_left = 0, rect_top = 0, rect_width = 200, rect_height = 400\<rparr>"
    and c: "captureFrame (page ?w) = Some []"
    by (simp_all add: newFrame_def example_guide_def example_page_def captureFrame_def
        js_index_def)
  have m: "clientPoint (MouseEvent 100 200) = Some (100, 200)"
    by (simp add: clientPoint_def)
  from c have "captureFrame (page ?w) = None \<or> captureFrame (page ?w) = Some []" by simp
  from capture_failure_during_inspect[OF a p m r this] c show ?thesis
    by (simp add: newFrame_def example_guide_def example_page_def percentCoordinates_def
        js_div_def js_mul_def)
qed

text \<open>
  The claim as stated fails: in the example session the canvas gives the empty picture,
  the container is tapped at its centre, and the state REPAIR_GUIDE comes with an
  inspector's point.
\<close>

theorem capture_failure_keeps_point_counterexample:
  "map_option (appState \<circ> ui)
     (session_run (open_guide @ [VideoFrame ''data:,'', Tap (MouseEvent 100 200)])
        (mounted example_page))
     = Some REPAIR_GUIDE
   \<and> map_option (inspectorPoint \<circ> ui)
     (session_run (open_guide @ [VideoFrame ''data:,'', Tap (MouseEvent 100 200)])
        (mounted example_page))
     = Some (Some \<lparr>pt_x = Fin 50, pt_y = Fin 50\<rparr>)
   \<and> map_option tasks
     (session_run (open_guide @ [VideoFrame ''data:,'', Tap (MouseEvent 100 200)])
        (mounted example_page))
     = Some []"
  by (simp add: from_guide) (simp add: running handlers setters examples example_guide_def)

section \<open>Listening without an audio track\<close>

text \<open>
  With no video element, no stream or no audio track, \<open>startListening\<close> creates no
  recorder, but it has already set the listening flag and the assistant's response.
\<close>

lemma startListening_no_recorder:
  assumes "videoRef (page w) = None
         \<or> (\<exists>video. videoRef (page w) = Some video
              \<and> (srcObject video = None
                  \<or> (\<exists>stream. srcObject video = Some stream \<and> audioTracks stream = [])))"
  shows "startListening w =
           w\<lparr>ui := (ui w)\<lparr>assistantResponse := Some ''Listening...'', isListening := True\<rparr>\<rparr>"
  using assms by (auto simp: startListening_def setters Let_def js_index_def)

text \<open>
  Claim C9 does not hold of the code. In the example session with a stream that has no
  audio track, the microphone button is pressed: no recorder is created, yet the session
  is listening and the assistant's response is \<open>Listening...\<close>; and releasing the
  button changes nothing, since \<open>stopListening\<close> returns at once without a recorder.
\<close>

theorem startListening_without_audio_track:
  "map_option (isListening \<circ> ui) (session_run open_guide (mounted example_page)) = Some False
   \<and> map_option (assistantResponse \<circ> ui) (session_run open_guide (mounted example_page))
     = Some None
   \<and> map_option (isListening \<circ> ui)
     (session_run [StartRepair, Done 0 (Stream (Fulfilled \<lparr>audioTracks = []\<rparr>)), Scan,
                   Done 0 (Plan (Fulfilled (example_plan [''open'', ''tighten'']))), AskStart]
        (mounted example_page))
     = Some True
   \<and> map_option (assistantResponse \<circ> ui)
     (session_run [StartRepair, Done 0 (Stream (Fulfilled \<lparr>audioTracks = []\<rparr>)), Scan,
                   Done 0 (Plan (Fulfilled (example_plan [''open'', ''tighten'']))), AskStart]
        (mounted example_page))
     = Some (Some ''Listening...'')
   \<and> map_option (mediaRecorderRef \<circ> page)
     (session_run [StartRepair, Done 0 (Stream (Fulfilled \<lparr>audioTracks = []\<rparr>)), Scan,
                   Done 0 (Plan (Fulfilled (example_plan [''open'', ''tighten'']))), AskStart]
        (mounted example_page))
     = Some None
   \<and> map_option (isListening \<circ> ui)
     (session_run [StartRepair, Done 0 (Stream (Fulfilled \<lparr>audioTracks = []\<rparr>)), Scan,
                   Done 0 (Plan (Fulfilled (example_plan [''open'', ''tighten'']))), AskStart,
                   AskStop]
        (mounted example_page))
     = Some True"
  by (simp add: example_guide_reached)
    (simp add: running handlers setters examples example_guide_def)

section \<open>Taps outside the container\<close>



end
